theory Spec2Isabelle
  imports Complex_Main "HOL-Library.AList" "HOL-Library.Multiset"
begin

section \<open>Values of the source language\<close>

text \<open>
  The source is TypeScript and computes on JavaScript numbers. The model takes a finite
  number as a \<open>real\<close> and its arithmetic as exact (zero has no sign). The values that
  the program itself can produce besides finite numbers are constructors of \<open>jsval\<close>:
  \<open>null\<close>, \<open>undefined\<close> (a read outside an array), and the results of a division
  by zero, \<open>NaN\<close> and the two infinities.
\<close>

datatype jsval = Null | Undefined | NaN | PosInf | NegInf | Num real

text \<open>The numeric reading of a value, as the comparison and arithmetic operators take it.\<close>

fun ToNumber :: "jsval \<Rightarrow> jsval" where
  "ToNumber Null = Num 0"
| "ToNumber Undefined = NaN"
| "ToNumber v = v"

text \<open>\<open>a / b\<close> on finite numbers.\<close>

definition js_div :: "real \<Rightarrow> real \<Rightarrow> jsval" where
  "js_div a b =
     (if b \<noteq> 0 then Num (a / b)
      else if a = 0 then NaN
      else if 0 < a then PosInf else NegInf)"

text \<open>\<open>Math.floor\<close>, \<open>Math.round\<close> (halves go up) and \<open>Math.abs\<close>.\<close>

fun js_floor :: "jsval \<Rightarrow> jsval" where
  "js_floor (Num x) = Num (of_int \<lfloor>x\<rfloor>)"
| "js_floor Null = Num 0"
| "js_floor Undefined = NaN"
| "js_floor v = v"


fun js_abs :: "jsval \<Rightarrow> jsval" where
  "js_abs (Num x) = Num \<bar>x\<bar>"
| "js_abs Null = Num 0"
| "js_abs Undefined = NaN"
| "js_abs NaN = NaN"
| "js_abs PosInf = PosInf"
| "js_abs NegInf = PosInf"

text \<open>\<open>a - b\<close> for a finite \<open>a\<close>.\<close>

fun js_sub :: "real \<Rightarrow> jsval \<Rightarrow> jsval" where
  "js_sub a (Num b) = Num (a - b)"
| "js_sub a Null = Num a"
| "js_sub a Undefined = NaN"
| "js_sub a NaN = NaN"
| "js_sub a PosInf = NegInf"
| "js_sub a NegInf = PosInf"

text \<open>The relational operators: every comparison with \<open>NaN\<close> is false.\<close>

fun num_lt :: "jsval \<Rightarrow> jsval \<Rightarrow> bool" where
  "num_lt (Num a) (Num b) = (a < b)"
| "num_lt (Num a) PosInf = True"
| "num_lt NegInf (Num b) = True"
| "num_lt NegInf PosInf = True"
| "num_lt _ _ = False"

definition js_lt :: "jsval \<Rightarrow> jsval \<Rightarrow> bool" where
  "js_lt a b = num_lt (ToNumber a) (ToNumber b)"

definition js_ge :: "jsval \<Rightarrow> jsval \<Rightarrow> bool" where
  "js_ge a b =
     (ToNumber a \<noteq> NaN \<and> ToNumber b \<noteq> NaN \<and> \<not> num_lt (ToNumber a) (ToNumber b))"

definition js_le :: "jsval \<Rightarrow> jsval \<Rightarrow> bool" where
  "js_le a b = js_ge b a"

text \<open>\<open>a === b\<close>: \<open>NaN\<close> is not equal to itself.\<close>

definition strict_eq :: "jsval \<Rightarrow> jsval \<Rightarrow> bool" where
  "strict_eq a b = (a = b \<and> a \<noteq> NaN)"

text \<open>
  \<open>xs[i]\<close> for a numeric index: an element when \<open>i\<close> is an integer inside the
  array, \<open>undefined\<close> otherwise.
\<close>

fun js_index :: "jsval list \<Rightarrow> jsval \<Rightarrow> jsval" where
  "js_index xs (Num i) =
     (if i = of_int \<lfloor>i\<rfloor> \<and> 0 \<le> i \<and> i < real (length xs) then xs ! nat \<lfloor>i\<rfloor> else Undefined)"
| "js_index xs v = Undefined"



section \<open>Data model\<close>


record ExpectedPitchArray =
  start :: real
  step :: real
  pitches :: "jsval list"

datatype PolyphonyStrategy = FIRST | VELOCITY | FREQUENCY

text \<open>\<open>Partial<PitchArrayConfig>\<close>: a field that is not given is \<open>None\<close>.\<close>

record PitchArrayConfig =
  resolution :: "real option"
  strategy :: "PolyphonyStrategy option"

record DetectedPitch =
  dmidi :: "real option"
  frequency :: real
  clarity :: real
  timestamp :: real

datatype MatchKind = PERFECT | ACCEPTABLE | MISS | NO_DATA

record ScoreFrame =
  ftime :: real
  expected :: jsval
  detected :: jsval
  diff :: jsval
  match :: MatchKind

record ScoringConfig =
  perfectThreshold :: real
  acceptableThreshold :: real
  clarityThreshold :: real

text \<open>\<open>Partial<ScoringConfig>\<close>.\<close>

record PartialScoringConfig =
  p_perfectThreshold :: "real option"
  p_acceptableThreshold :: "real option"
  p_clarityThreshold :: "real option"

section \<open>Lookup in the timeline (pitchArrayBuilder.ts)\<close>

definition getExpectedMidiAt :: "real \<Rightarrow> ExpectedPitchArray \<Rightarrow> jsval" where
  "getExpectedMidiAt t e =
     (if t < start e then Null
      else
        let idx = js_floor (js_div (t - start e) (step e))
        in if js_lt idx (Num 0) \<or> js_ge idx (Num (real (length (pitches e)))) then Null
           else js_index (pitches e) idx)"

section \<open>Run-length encoding (pitchArrayBuilder.ts)\<close>

record Run =
  run_value :: jsval
  run_count :: nat

record CompressedPitchArray =
  c_start :: real
  c_step :: real
  compressed :: "Run list"

text \<open>
  The loop of \<open>compressPitchArray\<close> over \<open>pitches[1], pitches[2], ...\<close>; its state is
  the list of finished runs, the current value and its count.
\<close>

fun compress_loop :: "jsval list \<Rightarrow> Run list \<Rightarrow> jsval \<Rightarrow> nat \<Rightarrow> Run list \<times> jsval \<times> nat" where
  "compress_loop [] acc cur n = (acc, cur, n)"
| "compress_loop (p # ps) acc cur n =
     (if strict_eq p cur then compress_loop ps acc cur (Suc n)
      else compress_loop ps (acc @ [\<lparr>run_value = cur, run_count = n\<rparr>]) p 1)"

definition compressPitchArray :: "ExpectedPitchArray \<Rightarrow> CompressedPitchArray" where
  "compressPitchArray e =
     (let currentValue = js_index (pitches e) (Num 0);
          (acc, cur, n) = compress_loop (drop 1 (pitches e)) [] currentValue 1;
          runs = (if 0 < length (pitches e) then acc @ [\<lparr>run_value = cur, run_count = n\<rparr>] else acc)
      in \<lparr>c_start = start e, c_step = step e, compressed = runs\<rparr>)"

fun decompress_runs :: "Run list \<Rightarrow> jsval list" where
  "decompress_runs [] = []"
| "decompress_runs (r # rs) = replicate (run_count r) (run_value r) @ decompress_runs rs"

definition decompressPitchArray :: "CompressedPitchArray \<Rightarrow> ExpectedPitchArray" where
  "decompressPitchArray c =
     \<lparr>start = c_start c, step = c_step c, pitches = decompress_runs (compressed c)\<rparr>"

section \<open>Building the timeline (pitchArrayBuilder.ts)\<close>













section \<open>Scoring\<close>

definition DEFAULT_SCORING_CONFIG :: ScoringConfig where
  "DEFAULT_SCORING_CONFIG =
     \<lparr>perfectThreshold = 1 / 2, acceptableThreshold = 1, clarityThreshold = 85 / 100\<rparr>"

text \<open>The object spread \<open>{ ...base, ...config }\<close>.\<close>

definition spread_config :: "ScoringConfig \<Rightarrow> PartialScoringConfig \<Rightarrow> ScoringConfig" where
  "spread_config base config =
     \<lparr>perfectThreshold =
        (case p_perfectThreshold config of None \<Rightarrow> perfectThreshold base | Some v \<Rightarrow> v),
      acceptableThreshold =
        (case p_acceptableThreshold config of None \<Rightarrow> acceptableThreshold base | Some v \<Rightarrow> v),
      clarityThreshold =
        (case p_clarityThreshold config of None \<Rightarrow> clarityThreshold base | Some v \<Rightarrow> v)\<rparr>"

text \<open>A full configuration passed where a partial one is expected.\<close>

definition as_partial :: "ScoringConfig \<Rightarrow> PartialScoringConfig" where
  "as_partial c =
     \<lparr>p_perfectThreshold = Some (perfectThreshold c),
      p_acceptableThreshold = Some (acceptableThreshold c),
      p_clarityThreshold = Some (clarityThreshold c)\<rparr>"

text \<open>\<open>detected?.midi ?? null\<close>.\<close>

definition detected_midi :: "DetectedPitch option \<Rightarrow> jsval" where
  "detected_midi det =
     (case det of None \<Rightarrow> Null
      | Some d \<Rightarrow> (case dmidi d of None \<Rightarrow> Null | Some m \<Rightarrow> Num m))"

definition evaluateFrame :: "DetectedPitch option \<Rightarrow> jsval \<Rightarrow> PartialScoringConfig \<Rightarrow> ScoreFrame" where
  "evaluateFrame det expd config =
     (let cfg = spread_config DEFAULT_SCORING_CONFIG config;
          t = (case det of None \<Rightarrow> 0 | Some d \<Rightarrow> timestamp d);
          no_data = \<lparr>ftime = t, expected = expd, detected = detected_midi det,
                     diff = Null, match = NO_DATA\<rparr>
      in if expd = Null then no_data
         else case det of
                None \<Rightarrow> no_data
              | Some d \<Rightarrow>
                  (case dmidi d of
                     None \<Rightarrow> no_data
                   | Some m \<Rightarrow>
                       if clarity d < clarityThreshold cfg then no_data
                       else
                         let df = js_abs (js_sub m expd);
                             mt = (if js_le df (Num (perfectThreshold cfg)) then PERFECT
                                   else if js_le df (Num (acceptableThreshold cfg)) then ACCEPTABLE
                                   else MISS)
                         in \<lparr>ftime = t, expected = expd, detected = Num m,
                             diff = df, match = mt\<rparr>))"

record ScoreTracker =
  frames :: "ScoreFrame list"
  config :: ScoringConfig

definition new_ScoreTracker :: "PartialScoringConfig \<Rightarrow> ScoreTracker" where
  "new_ScoreTracker c = \<lparr>frames = [], config = spread_config DEFAULT_SCORING_CONFIG c\<rparr>"

definition addFrame ::
  "DetectedPitch option \<Rightarrow> ExpectedPitchArray \<Rightarrow> real \<Rightarrow> ScoreTracker \<Rightarrow> ScoreFrame \<times> ScoreTracker" where
  "addFrame det expd currentTime tr =
     (let expectedMidi = getExpectedMidiAt currentTime expd;
          frame = evaluateFrame det expectedMidi (as_partial (config tr))
      in (frame, tr\<lparr>frames := frames tr @ [frame]\<rparr>))"

record ScoreStats =
  totalFrames :: nat
  perfectFrames :: nat
  acceptableFrames :: nat
  missFrames :: nat
  noDataFrames :: nat
  score :: real
  matchedTime :: real
  totalTime :: real

text \<open>One turn of the counting loop of \<open>getStats\<close>; the counters are in the order
  perfect, acceptable, miss, no data.\<close>

fun count_frame :: "ScoreFrame \<Rightarrow> nat \<times> nat \<times> nat \<times> nat \<Rightarrow> nat \<times> nat \<times> nat \<times> nat" where
  "count_frame f (p, a, m, n) =
     (case match f of
        PERFECT \<Rightarrow> (Suc p, a, m, n)
      | ACCEPTABLE \<Rightarrow> (p, Suc a, m, n)
      | MISS \<Rightarrow> (p, a, Suc m, n)
      | NO_DATA \<Rightarrow> (p, a, m, Suc n))"

definition math_round :: "real \<Rightarrow> real" where
  "math_round x = of_int \<lfloor>x + 1 / 2\<rfloor>"

definition getStats :: "ScoreTracker \<Rightarrow> ScoreStats" where
  "getStats tr =
     (let (p, a, m, n) = fold count_frame (frames tr) (0, 0, 0, 0);
          total = length (frames tr);
          scoredFrames = p + a + m;
          matchedFrames = p + a;
          sc = (if 0 < scoredFrames then (real matchedFrames / real scoredFrames) * 100 else 0);
          frameStep =
            (if 1 < length (frames tr)
             then (ftime (frames tr ! (length (frames tr) - 1)) - ftime (frames tr ! 0))
                    / real (length (frames tr) - 1)
             else 2 / 100)
      in \<lparr>totalFrames = total, perfectFrames = p, acceptableFrames = a, missFrames = m,
          noDataFrames = n, score = math_round (sc * 100) / 100,
          matchedTime = real matchedFrames * frameStep,
          totalTime = real scoredFrames * frameStep\<rparr>)"

definition reset :: "ScoreTracker \<Rightarrow> ScoreTracker" where
  "reset tr = tr\<lparr>frames := []\<rparr>"

definition resetFrom :: "real \<Rightarrow> ScoreTracker \<Rightarrow> ScoreTracker" where
  "resetFrom t tr = tr\<lparr>frames := filter (\<lambda>f. ftime f < t) (frames tr)\<rparr>"

text \<open>The argument of \<open>import\<close>: \<open>frames\<close> is required by its type, \<open>config\<close> is optional.\<close>

record ImportData =
  i_frames :: "ScoreFrame list"
  i_config :: "PartialScoringConfig option"

definition import_data :: "ImportData \<Rightarrow> ScoreTracker \<Rightarrow> ScoreTracker" where
  "import_data d tr =
     (let tr1 = tr\<lparr>frames := i_frames d\<rparr>
      in case i_config d of
           None \<Rightarrow> tr1
         | Some c \<Rightarrow> tr1\<lparr>config := spread_config DEFAULT_SCORING_CONFIG c\<rparr>)"

section \<open>Notions used in the statements\<close>

text \<open>The partial configuration \<open>{}\<close> that gives nothing.\<close>

definition no_config :: PartialScoringConfig where
  "no_config = \<lparr>p_perfectThreshold = None, p_acceptableThreshold = None, p_clarityThreshold = None\<rparr>"

text \<open>
  A caller feeds the tracker one \<open>addFrame\<close> call after the other; \<open>frame_of\<close> is the
  frame that one such call produces under a given configuration.
\<close>

type_synonym frame_input = "DetectedPitch option \<times> ExpectedPitchArray \<times> real"

definition feed :: "frame_input list \<Rightarrow> ScoreTracker \<Rightarrow> ScoreTracker" where
  "feed ins tr = fold (\<lambda>(det, arr, ct) s. snd (addFrame det arr ct s)) ins tr"

definition frame_of :: "ScoringConfig \<Rightarrow> frame_input \<Rightarrow> ScoreFrame" where
  "frame_of cfg i = (case i of (det, arr, ct) \<Rightarrow>
      evaluateFrame det (getExpectedMidiAt ct arr) (as_partial cfg))"

text \<open>The number of frames of one classification in a history.\<close>

definition count_match :: "MatchKind \<Rightarrow> ScoreFrame list \<Rightarrow> nat" where
  "count_match k fs = length (filter (\<lambda>f. match f = k) fs)"


text \<open>The resolution and the strategy in force: \<open>config.resolution ?? 0.02\<close> and
  \<open>config.strategy ?? 'VELOCITY'\<close>.\<close>

definition resolution_of :: "PitchArrayConfig \<Rightarrow> real" where
  "resolution_of cfg = (case resolution cfg of None \<Rightarrow> 2 / 100 | Some r \<Rightarrow> r)"











section \<open>Run-length encoding: the round trip\<close>

lemma decompress_runs_append:
  "decompress_runs (xs @ ys) = decompress_runs xs @ decompress_runs ys"
  by (induction xs) simp_all

text \<open>
  The invariant of the compression loop: the finished runs, followed by the run that is
  still open, decode to what has been read so far.
\<close>

lemma compress_loop_decompress:
  "compress_loop ps acc cur n = (acc', cur', n') \<Longrightarrow>
   decompress_runs (acc' @ [\<lparr>run_value = cur', run_count = n'\<rparr>]) =
   decompress_runs acc @ replicate n cur @ ps"
proof (induction ps arbitrary: acc cur n)
  case Nil
  then show ?case by (simp add: decompress_runs_append)
next
  case (Cons p ps)
  show ?case
  proof (cases "strict_eq p cur")
    case True
    then have eq: "p = cur" by (simp add: strict_eq_def)
    from Cons.prems True have "compress_loop ps acc cur (Suc n) = (acc', cur', n')" by simp
    from Cons.IH [OF this] show ?thesis
      by (simp add: eq replicate_app_Cons_same)
  next
    case False
    with Cons.prems
    have "compress_loop ps (acc @ [\<lparr>run_value = cur, run_count = n\<rparr>]) p 1 = (acc', cur', n')"
      by simp
    from Cons.IH [OF this] show ?thesis
      by (simp add: decompress_runs_append)
  qed
qed

lemma decompress_compress:
  "decompressPitchArray (compressPitchArray e) = e"
proof (cases "pitches e")
  case Nil
  then show ?thesis
    by (simp add: decompressPitchArray_def compressPitchArray_def)
next
  case (Cons p ps)
  obtain acc cur n where loop: "compress_loop ps [] p 1 = (acc, cur, n)"
    by (cases "compress_loop ps [] p 1") auto
  from compress_loop_decompress [OF loop]
  have "decompress_runs (acc @ [\<lparr>run_value = cur, run_count = n\<rparr>]) = p # ps" by simp
  with Cons loop show ?thesis
    by (simp add: decompressPitchArray_def compressPitchArray_def)
qed

text \<open>
  C6. Decompressing a compressed timeline gives back the same sequence of pitches, the
  empty one included, and the same start and step.
\<close>

theorem rle_round_trip:
  "pitches (decompressPitchArray (compressPitchArray e)) = pitches e
   \<and> start (decompressPitchArray (compressPitchArray e)) = start e
   \<and> step (decompressPitchArray (compressPitchArray e)) = step e"
  by (simp add: decompress_compress)

theorem rle_round_trip_witness:
  "compressed (compressPitchArray \<lparr>start = 0, step = 1 / 2, pitches = [Num 60, Num 60, Null, Num 62]\<rparr>)
     = [\<lparr>run_value = Num 60, run_count = 2\<rparr>, \<lparr>run_value = Null, run_count = 1\<rparr>,
        \<lparr>run_value = Num 62, run_count = 1\<rparr>]
   \<and> pitches (decompressPitchArray (compressPitchArray
         \<lparr>start = 0, step = 1 / 2, pitches = [Num 60, Num 60, Null, Num 62]\<rparr>))
     = [Num 60, Num 60, Null, Num 62]
   \<and> pitches (decompressPitchArray (compressPitchArray \<lparr>start = 0, step = 1 / 2, pitches = []\<rparr>)) = []"
  using rle_round_trip [of "\<lparr>start = 0, step = 1 / 2, pitches = [Num 60, Num 60, Null, Num 62]\<rparr>"]
    rle_round_trip [of "\<lparr>start = 0, step = 1 / 2, pitches = []\<rparr>"]
  by (simp add: compressPitchArray_def strict_eq_def)

section \<open>Lookup: the boundaries of the timeline\<close>




section \<open>Classification of a frame\<close>

lemma spread_as_partial: "spread_config b (as_partial c) = c"
  by (simp add: spread_config_def as_partial_def)

lemma evaluateFrame_Null:
  "evaluateFrame det Null c =
     \<lparr>ftime = (case det of None \<Rightarrow> 0 | Some d \<Rightarrow> timestamp d), expected = Null,
      detected = detected_midi det, diff = Null, match = NO_DATA\<rparr>"
  by (simp add: evaluateFrame_def Let_def)

lemma evaluateFrame_Num:
  "evaluateFrame det (Num x) (as_partial cfg) =
     (case det of
        None \<Rightarrow> \<lparr>ftime = 0, expected = Num x, detected = Null, diff = Null, match = NO_DATA\<rparr>
      | Some d \<Rightarrow>
          (case dmidi d of
             None \<Rightarrow> \<lparr>ftime = timestamp d, expected = Num x, detected = Null, diff = Null, match = NO_DATA\<rparr>
           | Some m \<Rightarrow>
               if clarity d < clarityThreshold cfg
               then \<lparr>ftime = timestamp d, expected = Num x, detected = Num m, diff = Null, match = NO_DATA\<rparr>
               else \<lparr>ftime = timestamp d, expected = Num x, detected = Num m, diff = Num \<bar>m - x\<bar>,
                     match = (if \<bar>m - x\<bar> \<le> perfectThreshold cfg then PERFECT
                              else if \<bar>m - x\<bar> \<le> acceptableThreshold cfg then ACCEPTABLE else MISS)\<rparr>))"
  by (simp add: evaluateFrame_def Let_def spread_as_partial detected_midi_def js_le_def js_ge_def
      split: option.splits)

text \<open>
  C4. The frame that \<open>addFrame\<close> produces is \<open>NO_DATA\<close> when the expected pitch at the
  current time is absent; when it is a pitch \<open>x\<close>, the frame is \<open>NO_DATA\<close> if there is
  no detection, no detected pitch, or a clarity below the clarity threshold; otherwise
  its difference is \<open>|detected - x|\<close> and it is \<open>PERFECT\<close> up to the perfect threshold,
  \<open>ACCEPTABLE\<close> up to the acceptable threshold and \<open>MISS\<close> beyond. The default
  thresholds are 0.5, 1.0 and 0.85.
\<close>

theorem addFrame_classification:
  "(getExpectedMidiAt t arr = Null \<longrightarrow>
      match (fst (addFrame det arr t tr)) = NO_DATA \<and> diff (fst (addFrame det arr t tr)) = Null)
   \<and> (getExpectedMidiAt t arr = Num x \<longrightarrow>
        (case det of
           None \<Rightarrow> match (fst (addFrame det arr t tr)) = NO_DATA
         | Some d \<Rightarrow>
             (case dmidi d of
                None \<Rightarrow> match (fst (addFrame det arr t tr)) = NO_DATA
              | Some m \<Rightarrow>
                  if clarity d < clarityThreshold (config tr)
                  then match (fst (addFrame det arr t tr)) = NO_DATA
                  else diff (fst (addFrame det arr t tr)) = Num \<bar>m - x\<bar>
                     \<and> match (fst (addFrame det arr t tr)) =
                         (if \<bar>m - x\<bar> \<le> perfectThreshold (config tr) then PERFECT
                          else if \<bar>m - x\<bar> \<le> acceptableThreshold (config tr) then ACCEPTABLE
                          else MISS))))
   \<and> config (new_ScoreTracker no_config) =
        \<lparr>perfectThreshold = 1 / 2, acceptableThreshold = 1, clarityThreshold = 85 / 100\<rparr>"
  by (auto simp: addFrame_def Let_def evaluateFrame_Null evaluateFrame_Num new_ScoreTracker_def
      spread_config_def DEFAULT_SCORING_CONFIG_def no_config_def split: option.splits)

theorem addFrame_classification_witness:
  "match (fst (addFrame (Some \<lparr>dmidi = Some (603 / 10), frequency = 265, clarity = 9 / 10, timestamp = 0\<rparr>)
       \<lparr>start = 0, step = 1, pitches = [Num 60]\<rparr> 0 (new_ScoreTracker no_config))) = PERFECT
   \<and> match (fst (addFrame (Some \<lparr>dmidi = Some (603 / 10), frequency = 265, clarity = 1 / 2, timestamp = 0\<rparr>)
       \<lparr>start = 0, step = 1, pitches = [Num 60]\<rparr> 0 (new_ScoreTracker no_config))) = NO_DATA
   \<and> match (fst (addFrame (Some \<lparr>dmidi = Some (603 / 10), frequency = 265, clarity = 9 / 10, timestamp = 0\<rparr>)
       \<lparr>start = 0, step = 1, pitches = [Num 60]\<rparr> 5 (new_ScoreTracker no_config))) = NO_DATA"
proof -
  let ?arr = "\<lparr>start = 0, step = 1, pitches = [Num 60]\<rparr>"
  have e0: "getExpectedMidiAt 0 ?arr = Num 60"
    by (simp add: getExpectedMidiAt_def js_div_def js_lt_def js_ge_def)
  have e5: "getExpectedMidiAt 5 ?arr = Null"
    by (simp add: getExpectedMidiAt_def js_div_def js_lt_def js_ge_def)
  from addFrame_classification [of 0 ?arr
      "Some \<lparr>dmidi = Some (603 / 10), frequency = 265, clarity = 9 / 10, timestamp = 0\<rparr>"
      "new_ScoreTracker no_config" 60]
    addFrame_classification [of 0 ?arr
      "Some \<lparr>dmidi = Some (603 / 10), frequency = 265, clarity = 1 / 2, timestamp = 0\<rparr>"
      "new_ScoreTracker no_config" 60]
    addFrame_classification [of 5 ?arr
      "Some \<lparr>dmidi = Some (603 / 10), frequency = 265, clarity = 9 / 10, timestamp = 0\<rparr>"
      "new_ScoreTracker no_config" 60]
    e0 e5
  show ?thesis by simp
qed

section \<open>The time of a frame\<close>

lemma addFrame_ftime:
  "ftime (fst (addFrame det arr ct tr)) = (case det of None \<Rightarrow> 0 | Some d \<Rightarrow> timestamp d)"
  by (simp add: addFrame_def evaluateFrame_def Let_def split: option.splits)

lemma addFrame_frames:
  "frames (snd (addFrame det arr ct tr)) = frames tr @ [fst (addFrame det arr ct tr)]"
  by (simp add: addFrame_def Let_def)

text \<open>
  C10. The time of the frame that \<open>addFrame\<close> produces and appends is the timestamp of
  the detection, and 0 when there is no detection; it is the current time only when that
  is the same number. A frame without detection therefore has time 0 in the history and
  survives \<open>resetFrom t\<close> exactly when \<open>0 < t\<close>.
\<close>

theorem addFrame_time_field:
  "ftime (fst (addFrame det arr ct tr)) = (case det of None \<Rightarrow> 0 | Some d \<Rightarrow> timestamp d)
   \<and> frames (snd (addFrame det arr ct tr)) = frames tr @ [fst (addFrame det arr ct tr)]
   \<and> (ftime (fst (addFrame det arr ct tr)) = ct
        \<longleftrightarrow> (case det of None \<Rightarrow> ct = 0 | Some d \<Rightarrow> timestamp d = ct))
   \<and> ftime (last (frames (snd (addFrame None arr ct tr)))) = 0
   \<and> (fst (addFrame None arr ct tr) \<in> set (frames (resetFrom t (snd (addFrame None arr ct tr))))
        \<longleftrightarrow> 0 < t)"
  by (auto simp: addFrame_ftime addFrame_frames resetFrom_def split: option.splits)

theorem addFrame_time_field_witness:
  "ftime (fst (addFrame (Some \<lparr>dmidi = Some 60, frequency = 262, clarity = 9 / 10, timestamp = 7\<rparr>)
       \<lparr>start = 0, step = 1, pitches = [Num 60]\<rparr> 3 (new_ScoreTracker no_config))) = 7
   \<and> ftime (fst (addFrame None \<lparr>start = 0, step = 1, pitches = [Num 60]\<rparr> 3 (new_ScoreTracker no_config))) = 0
   \<and> fst (addFrame None \<lparr>start = 0, step = 1, pitches = [Num 60]\<rparr> 3 (new_ScoreTracker no_config))
       \<in> set (frames (resetFrom 2
             (snd (addFrame None \<lparr>start = 0, step = 1, pitches = [Num 60]\<rparr> 3 (new_ScoreTracker no_config)))))"
  using addFrame_time_field [of "Some \<lparr>dmidi = Some 60, frequency = 262, clarity = 9 / 10, timestamp = 7\<rparr>"
      "\<lparr>start = 0, step = 1, pitches = [Num 60]\<rparr>" 3 "new_ScoreTracker no_config" 2]
    addFrame_time_field [of None "\<lparr>start = 0, step = 1, pitches = [Num 60]\<rparr>" 3 "new_ScoreTracker no_config" 2]
  by simp

section \<open>The score\<close>

lemma fold_count_frame:
  "fold count_frame fs (p, a, m, n) =
     (p + count_match PERFECT fs, a + count_match ACCEPTABLE fs,
      m + count_match MISS fs, n + count_match NO_DATA fs)"
  by (induction fs arbitrary: p a m n) (auto simp: count_match_def split: MatchKind.splits)

lemma getStats_counts:
  "perfectFrames (getStats tr) = count_match PERFECT (frames tr)"
  "acceptableFrames (getStats tr) = count_match ACCEPTABLE (frames tr)"
  "missFrames (getStats tr) = count_match MISS (frames tr)"
  "noDataFrames (getStats tr) = count_match NO_DATA (frames tr)"
  by (simp_all add: getStats_def fold_count_frame Let_def)

lemma getStats_score_eq:
  "score (getStats tr) =
     (if 0 < count_match PERFECT (frames tr) + count_match ACCEPTABLE (frames tr) + count_match MISS (frames tr)
      then math_round
             (real (count_match PERFECT (frames tr) + count_match ACCEPTABLE (frames tr))
               / real (count_match PERFECT (frames tr) + count_match ACCEPTABLE (frames tr) + count_match MISS (frames tr))
               * 100 * 100) / 100
      else 0)"
  by (simp add: getStats_def fold_count_frame Let_def math_round_def)







section \<open>Seeking\<close>

lemma feed_frames_config:
  "frames (feed ins tr) = frames tr @ map (frame_of (config tr)) ins \<and> config (feed ins tr) = config tr"
proof (induction ins arbitrary: tr)
  case Nil
  then show ?case by (simp add: feed_def)
next
  case (Cons i ins)
  obtain det arr ct where i: "i = (det, arr, ct)" by (cases i) auto
  have step: "feed (i # ins) tr = feed ins (snd (addFrame det arr ct tr))"
    by (simp add: feed_def i)
  have c: "config (snd (addFrame det arr ct tr)) = config tr"
    by (simp add: addFrame_def Let_def)
  have f: "frames (snd (addFrame det arr ct tr)) = frames tr @ [frame_of (config tr) i]"
    by (simp add: addFrame_def Let_def frame_of_def i)
  show ?case
    unfolding step using Cons.IH [of "snd (addFrame det arr ct tr)"] by (simp add: c f)
qed

lemma filter_sorted_split:
  "sorted (map g xs) \<Longrightarrow> filter (\<lambda>x. g x < (t::real)) xs @ filter (\<lambda>x. t \<le> g x) xs = xs"
proof (induction xs)
  case Nil
  then show ?case by simp
next
  case (Cons x xs)
  show ?case
  proof (cases "g x < t")
    case True
    with Cons show ?thesis by simp
  next
    case False
    with Cons.prems have "\<forall>y \<in> set xs. t \<le> g y" by fastforce
    then have "filter (\<lambda>x. g x < t) xs = []" "filter (\<lambda>x. t \<le> g x) xs = xs"
      by (auto simp: filter_empty_conv filter_id_conv)
    with False show ?thesis by simp
  qed
qed

lemma mset_filter_split:
  "mset (filter (\<lambda>x. g x < (t::real)) xs @ filter (\<lambda>x. t \<le> g x) xs) = mset xs"
  by (induction xs) auto

lemma count_match_mset: "mset xs = mset ys \<Longrightarrow> count_match k xs = count_match k ys"
proof -
  assume "mset xs = mset ys"
  then have "mset (filter (\<lambda>f. match f = k) xs) = mset (filter (\<lambda>f. match f = k) ys)"
    by simp
  then show ?thesis
    unfolding count_match_def by (metis size_mset)
qed

lemma readd_frames:
  assumes "frames tr0 = []"
  shows "frames (feed (filter (\<lambda>i. t \<le> ftime (frame_of (config tr0) i)) ins) (resetFrom t (feed ins tr0)))
     = filter (\<lambda>f. ftime f < t) (frames (feed ins tr0)) @ filter (\<lambda>f. t \<le> ftime f) (frames (feed ins tr0))"
proof -
  have c: "config (resetFrom t (feed ins tr0)) = config tr0"
    by (simp add: resetFrom_def feed_frames_config)
  show ?thesis
    by (simp add: feed_frames_config [of _ "resetFrom t (feed ins tr0)"] c)
       (simp add: resetFrom_def feed_frames_config assms filter_map comp_def)
qed

text \<open>
  C8. \<open>resetFrom t\<close> keeps, in their order, the frames whose time is below \<open>t\<close> and
  drops all the others, so no frame at or after \<open>t\<close> survives. When the history was
  built by \<open>addFrame\<close> calls, feeding again the inputs whose frames have a time of at
  least \<open>t\<close> gives back the same frames with the same multiplicities, hence the same
  count for every classification, and the very same history when it is ordered by time.
\<close>

theorem resetFrom_seek:
  "frames (resetFrom t tr) = filter (\<lambda>f. ftime f < t) (frames tr)
   \<and> config (resetFrom t tr) = config tr
   \<and> (\<forall>f \<in> set (frames tr). f \<in> set (frames (resetFrom t tr)) \<longleftrightarrow> ftime f < t)
   \<and> (frames tr0 = [] \<longrightarrow>
        mset (frames (feed (filter (\<lambda>i. t \<le> ftime (frame_of (config tr0) i)) ins)
                        (resetFrom t (feed ins tr0))))
          = mset (frames (feed ins tr0))
        \<and> (\<forall>k. count_match k (frames (feed (filter (\<lambda>i. t \<le> ftime (frame_of (config tr0) i)) ins)
                        (resetFrom t (feed ins tr0))))
              = count_match k (frames (feed ins tr0)))
        \<and> (sorted (map ftime (frames (feed ins tr0))) \<longrightarrow>
             frames (feed (filter (\<lambda>i. t \<le> ftime (frame_of (config tr0) i)) ins)
                        (resetFrom t (feed ins tr0)))
               = frames (feed ins tr0)))"
proof -
  have a: "frames (resetFrom t tr) = filter (\<lambda>f. ftime f < t) (frames tr)"
    and b: "config (resetFrom t tr) = config tr"
    by (simp_all add: resetFrom_def)
  have c: "\<forall>f \<in> set (frames tr). f \<in> set (frames (resetFrom t tr)) \<longleftrightarrow> ftime f < t"
    by (simp add: resetFrom_def)
  have d: "mset (frames (feed (filter (\<lambda>i. t \<le> ftime (frame_of (config tr0) i)) ins)
                        (resetFrom t (feed ins tr0))))
          = mset (frames (feed ins tr0))" if "frames tr0 = []"
    unfolding readd_frames [OF that] by (rule mset_filter_split)
  have e: "frames (feed (filter (\<lambda>i. t \<le> ftime (frame_of (config tr0) i)) ins)
                        (resetFrom t (feed ins tr0)))
               = frames (feed ins tr0)"
    if "frames tr0 = []" "sorted (map ftime (frames (feed ins tr0)))"
    unfolding readd_frames [OF that(1)] by (rule filter_sorted_split [OF that(2)])
  from a b c d e count_match_mset show ?thesis by blast
qed

theorem resetFrom_seek_witness:
  "frames (resetFrom 1 (feed
      [(Some \<lparr>dmidi = Some 60, frequency = 262, clarity = 9 / 10, timestamp = 0\<rparr>,
        \<lparr>start = 0, step = 1, pitches = [Num 60, Num 62]\<rparr>, 0),
       (Some \<lparr>dmidi = Some 65, frequency = 349, clarity = 9 / 10, timestamp = 1\<rparr>,
        \<lparr>start = 0, step = 1, pitches = [Num 60, Num 62]\<rparr>, 1)]
      (new_ScoreTracker no_config)))
     = [\<lparr>ftime = 0, expected = Num 60, detected = Num 60, diff = Num 0, match = PERFECT\<rparr>]
   \<and> frames (feed
      (filter (\<lambda>i. 1 \<le> ftime (frame_of (config (new_ScoreTracker no_config)) i))
        [(Some \<lparr>dmidi = Some 60, frequency = 262, clarity = 9 / 10, timestamp = 0\<rparr>,
          \<lparr>start = 0, step = 1, pitches = [Num 60, Num 62]\<rparr>, 0),
         (Some \<lparr>dmidi = Some 65, frequency = 349, clarity = 9 / 10, timestamp = 1\<rparr>,
          \<lparr>start = 0, step = 1, pitches = [Num 60, Num 62]\<rparr>, 1)])
      (resetFrom 1 (feed
        [(Some \<lparr>dmidi = Some 60, frequency = 262, clarity = 9 / 10, timestamp = 0\<rparr>,
          \<lparr>start = 0, step = 1, pitches = [Num 60, Num 62]\<rparr>, 0),
         (Some \<lparr>dmidi = Some 65, frequency = 349, clarity = 9 / 10, timestamp = 1\<rparr>,
          \<lparr>start = 0, step = 1, pitches = [Num 60, Num 62]\<rparr>, 1)]
        (new_ScoreTracker no_config))))
     = [\<lparr>ftime = 0, expected = Num 60, detected = Num 60, diff = Num 0, match = PERFECT\<rparr>,
        \<lparr>ftime = 1, expected = Num 62, detected = Num 65, diff = Num 3, match = MISS\<rparr>]"
proof -
  let ?arr = "\<lparr>start = 0, step = 1, pitches = [Num 60, Num 62]\<rparr>"
  let ?ins = "[(Some \<lparr>dmidi = Some 60, frequency = 262, clarity = 9 / 10, timestamp = 0\<rparr>, ?arr, 0::real),
       (Some \<lparr>dmidi = Some 65, frequency = 349, clarity = 9 / 10, timestamp = 1\<rparr>, ?arr, 1)]"
  let ?tr0 = "new_ScoreTracker no_config"
  have e0: "getExpectedMidiAt 0 ?arr = Num 60" and e1: "getExpectedMidiAt 1 ?arr = Num 62"
    by (simp_all add: getExpectedMidiAt_def js_div_def js_lt_def js_ge_def)
  have hist: "frames (feed ?ins ?tr0)
     = [\<lparr>ftime = 0, expected = Num 60, detected = Num 60, diff = Num 0, match = PERFECT\<rparr>,
        \<lparr>ftime = 1, expected = Num 62, detected = Num 65, diff = Num 3, match = MISS\<rparr>]"
    by (simp add: feed_frames_config frame_of_def e0 e1 evaluateFrame_Num new_ScoreTracker_def
        no_config_def spread_config_def DEFAULT_SCORING_CONFIG_def)
  have h1: "frames ?tr0 = []" by (simp add: new_ScoreTracker_def)
  have h2: "sorted (map ftime (frames (feed ?ins ?tr0)))" by (simp add: hist)
  from resetFrom_seek [of 1 "feed ?ins ?tr0" ?tr0 ?ins] h1 h2 hist
  show ?thesis by simp
qed

section \<open>Import\<close>

text \<open>
  C9, as the code has it. \<open>import\<close> checks nothing and signals nothing: it always
  replaces the frame history by \<open>data.frames\<close>; it replaces the configuration, by the
  defaults overridden with the fields that are given, when \<open>data.config\<close> is present,
  and leaves the configuration as it was when \<open>data.config\<close> is absent.
\<close>

theorem import_data_effect:
  "frames (import_data d tr) = i_frames d
   \<and> config (import_data d tr) =
       (case i_config d of None \<Rightarrow> config tr
        | Some c \<Rightarrow> spread_config DEFAULT_SCORING_CONFIG c)"
  by (simp add: import_data_def Let_def split: option.splits)

theorem import_data_effect_witness:
  "import_data \<lparr>i_frames = [], i_config = Some \<lparr>p_perfectThreshold = Some (1 / 4),
        p_acceptableThreshold = None, p_clarityThreshold = None\<rparr>\<rparr>
      \<lparr>frames = [\<lparr>ftime = 0, expected = Num 60, detected = Num 60, diff = Num 0, match = PERFECT\<rparr>],
       config = \<lparr>perfectThreshold = 1 / 8, acceptableThreshold = 2, clarityThreshold = 1 / 2\<rparr>\<rparr>
   = \<lparr>frames = [],
      config = \<lparr>perfectThreshold = 1 / 4, acceptableThreshold = 1, clarityThreshold = 85 / 100\<rparr>\<rparr>"
  using import_data_effect [of "\<lparr>i_frames = [], i_config = Some \<lparr>p_perfectThreshold = Some (1 / 4),
        p_acceptableThreshold = None, p_clarityThreshold = None\<rparr>\<rparr>"
      "\<lparr>frames = [\<lparr>ftime = 0, expected = Num 60, detected = Num 60, diff = Num 0, match = PERFECT\<rparr>],
       config = \<lparr>perfectThreshold = 1 / 8, acceptableThreshold = 2, clarityThreshold = 1 / 2\<rparr>\<rparr>"]
  by (simp add: import_data_def spread_config_def DEFAULT_SCORING_CONFIG_def)

text \<open>
  C9 as stated fails on an input without \<open>config\<close>: nothing is signalled, the history
  is replaced all the same, and the configuration is not replaced.
\<close>

theorem import_data_counterexample:
  "frames (import_data \<lparr>i_frames = [], i_config = None\<rparr>
      \<lparr>frames = [\<lparr>ftime = 0, expected = Num 60, detected = Num 60, diff = Num 0, match = PERFECT\<rparr>],
       config = \<lparr>perfectThreshold = 1 / 4, acceptableThreshold = 2, clarityThreshold = 1 / 2\<rparr>\<rparr>) = []
   \<and> config (import_data \<lparr>i_frames = [], i_config = None\<rparr>
      \<lparr>frames = [\<lparr>ftime = 0, expected = Num 60, detected = Num 60, diff = Num 0, match = PERFECT\<rparr>],
       config = \<lparr>perfectThreshold = 1 / 4, acceptableThreshold = 2, clarityThreshold = 1 / 2\<rparr>\<rparr>)
     = \<lparr>perfectThreshold = 1 / 4, acceptableThreshold = 2, clarityThreshold = 1 / 2\<rparr>"
  by (simp add: import_data_def)

section \<open>The slot map\<close>
















section \<open>The timeline that is built\<close>










section \<open>Quantization\<close>





lemma resolution_of_strategy_update [simp]:
  "resolution_of (cfg\<lparr>strategy := s\<rparr>) = resolution_of cfg"
  by (simp add: resolution_of_def)







section \<open>The weighted mean\<close>





end
